theory Spec2Isabelle
  imports Main
begin

section \<open>Characters and strings\<close>

text \<open>
  Python strings are modelled as \<open>string\<close> (lists of 8-bit characters), read as the
  code points 0..255. Where a library function would leave this alphabet the model
  returns the error \<open>OutsideModel\<close>, which is not a Python exception but the boundary
  of the embedding.
\<close>

datatype error =
    TypeError
  | JSONDecodeError
  | InvalidStatusCode int int
  | UnexpectedSize nat int
  | AlreadyExists string
  | FileNotFound string
  | OutsideModel

definition code :: "char \<Rightarrow> nat" where
  "code c = of_char c"

text \<open>\<open>str.isspace\<close> and the pattern class \<open>\s\<close> on the code points below 256.\<close>

definition is_space :: "char \<Rightarrow> bool" where
  "is_space c = (let n = code c in (9 \<le> n \<and> n \<le> 13) \<or> (28 \<le> n \<and> n \<le> 32) \<or> n = 133 \<or> n = 160)"

definition is_digit :: "char \<Rightarrow> bool" where
  "is_digit c = (let n = code c in 48 \<le> n \<and> n \<le> 57)"

definition is_hex :: "char \<Rightarrow> bool" where
  "is_hex c = (let n = code c in (48 \<le> n \<and> n \<le> 57) \<or> (65 \<le> n \<and> n \<le> 70) \<or> (97 \<le> n \<and> n \<le> 102))"

definition is_alpha :: "char \<Rightarrow> bool" where
  "is_alpha c = (let n = code c in (65 \<le> n \<and> n \<le> 90) \<or> (97 \<le> n \<and> n \<le> 122))"

definition digit_val :: "char \<Rightarrow> nat" where
  "digit_val c = code c - 48"

definition hex_val :: "char \<Rightarrow> nat" where
  "hex_val c = (let n = code c in if n \<le> 57 then n - 48 else if n \<le> 70 then n - 55 else n - 87)"

definition lower_char :: "char \<Rightarrow> char" where
  "lower_char c = (let n = code c in if 65 \<le> n \<and> n \<le> 90 then char_of (n + 32) else c)"

definition lower :: "string \<Rightarrow> string" where
  "lower s = map lower_char s"

text \<open>\<open>str.strip()\<close> with no argument.\<close>

definition strip :: "string \<Rightarrow> string" where
  "strip s = rev (dropWhile is_space (rev (dropWhile is_space s)))"

text \<open>\<open>'%s' % n\<close> for an integer: the decimal representation.\<close>

definition digit_char :: "nat \<Rightarrow> char" where
  "digit_char n = ''0123456789'' ! (n mod 10)"

function digits_of :: "nat \<Rightarrow> string" where
  "digits_of n = (if n < 10 then [digit_char n] else digits_of (n div 10) @ [digit_char n])"
  by pat_completeness auto
termination
  by (relation "measure id") auto

declare digits_of.simps [simp del]

definition str_int :: "int \<Rightarrow> string" where
  "str_int i = (if i < 0 then CHR ''-'' # digits_of (nat (- i)) else digits_of (nat i))"

text \<open>\<open>s.split(sep)\<close> for a one-character separator: never the empty list.\<close>

fun split_chr :: "char \<Rightarrow> string \<Rightarrow> string list" where
  "split_chr sep [] = [[]]"
| "split_chr sep (c # cs) =
     (if c = sep then [] # split_chr sep cs
      else (case split_chr sep cs of
              [] \<Rightarrow> [[c]]
            | p # ps \<Rightarrow> (c # p) # ps))"

text \<open>\<open>s.split(sep, 1)\<close> when \<open>sep\<close> occurs in \<open>s\<close>, and the test \<open>sep in s\<close>.\<close>

definition before_chr :: "char \<Rightarrow> string \<Rightarrow> string" where
  "before_chr sep s = takeWhile (\<lambda>c. c \<noteq> sep) s"

definition after_chr :: "char \<Rightarrow> string \<Rightarrow> string" where
  "after_chr sep s = drop 1 (dropWhile (\<lambda>c. c \<noteq> sep) s)"

section \<open>The script template (\<open>TheHTMLParser.jsreg\<close>)\<close>

text \<open>
  The pattern of \<open>jsreg\<close> is a sequence of character classes, each taken once or under
  a greedy star, with seven capture groups that are not nested. The matcher below is the
  backtracking search of \<open>re.match\<close> for patterns of that shape: anchored at the start
  of the text, a star first takes a character and gives it back only when the rest of
  the pattern fails.
\<close>

datatype cclass =
    Ch char          \<comment> \<open>a literal character\<close>
  | Space            \<comment> \<open>\<open>\s\<close>\<close>
  | Digit            \<comment> \<open>\<open>\d\<close>\<close>
  | AnyChar          \<comment> \<open>\<open>[\s\S]\<close>\<close>
  | NotNL            \<comment> \<open>\<open>[^\r\n]\<close>\<close>
  | Dot              \<comment> \<open>\<open>.\<close> without DOTALL\<close>

fun cmatch :: "cclass \<Rightarrow> char \<Rightarrow> bool" where
  "cmatch (Ch d) c = (c = d)"
| "cmatch Space c = is_space c"
| "cmatch Digit c = is_digit c"
| "cmatch AnyChar c = True"
| "cmatch NotNL c = (c \<noteq> CHR 0x0D \<and> c \<noteq> CHR 0x0A)"
| "cmatch Dot c = (c \<noteq> CHR 0x0A)"

datatype ritem = One cclass | Star cclass | GOpen | GClose

text \<open>
  \<open>rmatch items text cur caps\<close>: \<open>cur\<close> is the text of the group that is open (if
  one is), \<open>caps\<close> the groups already closed, in order.
\<close>

definition push :: "char \<Rightarrow> string option \<Rightarrow> string option" where
  "push c cur = map_option (\<lambda>g. g @ [c]) cur"

fun rmatch :: "ritem list \<Rightarrow> string \<Rightarrow> string option \<Rightarrow> string list \<Rightarrow> string list option" where
  "rmatch [] s cur caps = Some caps"
| "rmatch (GOpen # rs) s cur caps = rmatch rs s (Some []) caps"
| "rmatch (GClose # rs) s cur caps =
     (case cur of None \<Rightarrow> rmatch rs s None caps | Some g \<Rightarrow> rmatch rs s None (caps @ [g]))"
| "rmatch (One k # rs) [] cur caps = None"
| "rmatch (One k # rs) (c # cs) cur caps =
     (if cmatch k c then rmatch rs cs (push c cur) caps else None)"
| "rmatch (Star k # rs) [] cur caps = rmatch rs [] cur caps"
| "rmatch (Star k # rs) (c # cs) cur caps =
     (if cmatch k c then
        (case rmatch (Star k # rs) cs (push c cur) caps of
           Some r \<Rightarrow> Some r
         | None \<Rightarrow> rmatch rs (c # cs) cur caps)
      else rmatch rs (c # cs) cur caps)"

definition lit :: "string \<Rightarrow> ritem list" where
  "lit s = map (\<lambda>c. One (Ch c)) s"

definition ws :: "ritem list" where
  "ws = [Star Space]"

definition ws1 :: "ritem list" where
  "ws1 = [One Space, Star Space]"

definition digits_group :: "ritem list" where
  "digits_group = [GOpen, One Digit, Star Digit, GClose]"

definition string_group :: "ritem list" where
  "string_group = [GOpen, One (Ch CHR 0x22), Star NotNL, One (Ch CHR 0x22), GClose]"

definition jsreg :: "ritem list" where
  "jsreg =
     lit ''var'' @ ws1 @ lit ''a'' @ ws @ lit ''='' @ ws @ digits_group @ lit '';'' @ [Star AnyChar] @
     lit ''.'' @ ws @ lit ''omg'' @ ws @ lit ''='' @ ws @ string_group @ ws @ lit ''.'' @ ws @
       lit ''substr'' @ ws @ lit ''('' @ ws @ digits_group @ ws @ lit '','' @ ws @ digits_group @ ws @
       lit '')'' @ ws @ lit '';'' @ [Star AnyChar] @
     lit ''.href'' @ ws @ lit ''='' @ ws @ string_group @ ws @ lit ''+'' @ ws @
     lit ''('' @ ws @ lit ''Math'' @ ws @ [One Dot] @ ws @ lit ''pow'' @ ws @ lit ''('' @ ws @
       lit ''a'' @ ws @ lit '','' @ ws @ digits_group @ ws @ lit '')'' @ ws @ lit ''+'' @ ws @
       lit ''b'' @ ws @ lit '')'' @ ws @ lit ''+'' @ ws @
     string_group @ ws @ lit '';''"

record jsdata =
  js_a :: string
  js_str :: string
  js_substr_start :: string
  js_substr_length :: string
  js_url_head :: string
  js_power :: string
  js_url_tail :: string

definition jsreg_match :: "string \<Rightarrow> jsdata option" where
  "jsreg_match src =
     (case rmatch jsreg src None [] of
        Some [g1, g2, g3, g4, g5, g6, g7] \<Rightarrow>
          Some \<lparr>js_a = g1, js_str = g2, js_substr_start = g3, js_substr_length = g4,
                js_url_head = g5, js_power = g6, js_url_tail = g7\<rparr>
      | _ \<Rightarrow> None)"

section \<open>Literal decoding (\<open>json_decode\<close>, \<open>js_decode\<close>)\<close>

text \<open>
  \<open>json.loads\<close> on the two shapes of literal that the template captures: a number and
  a double-quoted string. Arrays, objects, the constants and floating-point numbers are
  valid JSON that the model does not represent: they give \<open>OutsideModel\<close>, as does a
  \<open>\uXXXX\<close> escape above code point 255.
\<close>

datatype json = JInt int | JStr string

definition json_ws :: "char \<Rightarrow> bool" where
  "json_ws c = (c = CHR '' '' \<or> c = CHR 0x09 \<or> c = CHR 0x0A \<or> c = CHR 0x0D)"

definition unescape :: "char \<Rightarrow> char option" where
  "unescape e =
     (if e = CHR 0x22 then Some (CHR 0x22)
      else if e = CHR 0x5C then Some (CHR 0x5C)
      else if e = CHR ''/'' then Some (CHR ''/'')
      else if e = CHR ''b'' then Some (CHR 0x08)
      else if e = CHR ''f'' then Some (CHR 0x0C)
      else if e = CHR ''n'' then Some (CHR 0x0A)
      else if e = CHR ''r'' then Some (CHR 0x0D)
      else if e = CHR ''t'' then Some (CHR 0x09)
      else None)"

definition hex4 :: "char \<Rightarrow> char \<Rightarrow> char \<Rightarrow> char \<Rightarrow> nat" where
  "hex4 a b c d = ((hex_val a * 16 + hex_val b) * 16 + hex_val c) * 16 + hex_val d"

text \<open>The body of a string literal, after the opening quote (strict mode).\<close>

fun scanstring :: "string \<Rightarrow> string \<Rightarrow> error + (string \<times> string)" where
  "scanstring [] acc = Inl JSONDecodeError"
| "scanstring (c # r) acc =
     (if c = CHR 0x22 then Inr (acc, r)
      else if c = CHR 0x5C then
        (case r of
           [] \<Rightarrow> Inl JSONDecodeError
         | e # r1 \<Rightarrow>
             if e = CHR ''u'' then
               (case r1 of
                  h1 # h2 # h3 # h4 # r2 \<Rightarrow>
                    if is_hex h1 \<and> is_hex h2 \<and> is_hex h3 \<and> is_hex h4 then
                      (if hex4 h1 h2 h3 h4 < 256
                       then scanstring r2 (acc @ [char_of (hex4 h1 h2 h3 h4)])
                       else Inl OutsideModel)
                    else Inl JSONDecodeError
                | _ \<Rightarrow> Inl JSONDecodeError)
             else
               (case unescape e of
                  None \<Rightarrow> Inl JSONDecodeError
                | Some x \<Rightarrow> scanstring r1 (acc @ [x])))
      else if code c < 32 then Inl JSONDecodeError
      else scanstring r (acc @ [c]))"

definition dec_val :: "string \<Rightarrow> nat" where
  "dec_val ds = foldl (\<lambda>a c. 10 * a + digit_val c) 0 ds"

text \<open>The integer part of a number: \<open>0\<close>, or a non-zero digit and more digits.\<close>

definition scan_int_part :: "string \<Rightarrow> (nat \<times> string) option" where
  "scan_int_part s =
     (case s of
        [] \<Rightarrow> None
      | c # r \<Rightarrow>
          if c = CHR ''0'' then Some (0, r)
          else if is_digit c then Some (dec_val (takeWhile is_digit s), dropWhile is_digit s)
          else None)"

text \<open>Whether a fraction or an exponent follows, which makes the number a float.\<close>

definition float_tail :: "string \<Rightarrow> bool" where
  "float_tail r =
     (case r of
        [] \<Rightarrow> False
      | c # r1 \<Rightarrow>
          if c = CHR ''.'' then (case r1 of [] \<Rightarrow> False | d # _ \<Rightarrow> is_digit d)
          else if c = CHR ''e'' \<or> c = CHR ''E'' then
            (case r1 of
               [] \<Rightarrow> False
             | d # r2 \<Rightarrow>
                 if d = CHR ''+'' \<or> d = CHR ''-'' then (case r2 of [] \<Rightarrow> False | d2 # _ \<Rightarrow> is_digit d2)
                 else is_digit d)
          else False)"

definition scan_number :: "string \<Rightarrow> error + (json \<times> string)" where
  "scan_number s =
     (let neg = (case s of [] \<Rightarrow> False | c # _ \<Rightarrow> c = CHR ''-'');
          body = (if neg then drop 1 s else s)
      in case scan_int_part body of
           None \<Rightarrow> (if neg \<and> take 8 body = ''Infinity'' then Inl OutsideModel else Inl JSONDecodeError)
         | Some (n, r) \<Rightarrow>
             if float_tail r then Inl OutsideModel
             else Inr (JInt (if neg then - int n else int n), r))"

definition scan_once :: "string \<Rightarrow> error + (json \<times> string)" where
  "scan_once s =
     (case s of
        [] \<Rightarrow> Inl JSONDecodeError
      | c # r \<Rightarrow>
          if c = CHR 0x22 then
            (case scanstring r [] of Inl e \<Rightarrow> Inl e | Inr (v, r1) \<Rightarrow> Inr (JStr v, r1))
          else if c = CHR ''{'' \<or> c = CHR ''['' then Inl OutsideModel
          else if take 4 s = ''null'' \<or> take 4 s = ''true'' \<or> take 5 s = ''false'' then Inl OutsideModel
          else if c = CHR ''-'' \<or> is_digit c then scan_number s
          else if take 3 s = ''NaN'' \<or> take 8 s = ''Infinity'' then Inl OutsideModel
          else Inl JSONDecodeError)"

definition json_decode :: "string \<Rightarrow> error + json" where
  "json_decode s =
     (case scan_once (dropWhile json_ws s) of
        Inl e \<Rightarrow> Inl e
      | Inr (v, r) \<Rightarrow> if dropWhile json_ws r = [] then Inr v else Inl JSONDecodeError)"

text \<open>
  \<open>json.dumps(chr(n))[1:-1]\<close> for \<open>n < 256\<close>: the JSON escape of one character, with
  \<open>ensure_ascii\<close> on.
\<close>

definition hex_digit :: "nat \<Rightarrow> char" where
  "hex_digit n = ''0123456789abcdef'' ! (n mod 16)"

definition json_dumps_chr :: "nat \<Rightarrow> string" where
  "json_dumps_chr n =
     (if n = 0x22 then [CHR 0x5C, CHR 0x22]
      else if n = 0x5C then [CHR 0x5C, CHR 0x5C]
      else if n = 0x08 then [CHR 0x5C, CHR ''b'']
      else if n = 0x0C then [CHR 0x5C, CHR ''f'']
      else if n = 0x0A then [CHR 0x5C, CHR ''n'']
      else if n = 0x0D then [CHR 0x5C, CHR ''r'']
      else if n = 0x09 then [CHR 0x5C, CHR ''t'']
      else if n < 0x20 \<or> 0x7E < n then
        [CHR 0x5C, CHR ''u'', CHR ''0'', CHR ''0'', hex_digit (n div 16), hex_digit n]
      else [char_of n])"

text \<open>
  The substitution of \<open>js_decode\<close>: \<open>re.sub\<close> with the pattern
  \<^verbatim>\<open>(^|[^\\])(\\\\)*\\x[0-9A-Fa-f]{2}\<close>. A match is an optional character that is not a
  backslash (none only at the very start of the text), pairs of backslashes, and
  \<^verbatim>\<open>\xHH\<close>. \<open>repl\<close> keeps what precedes \<^verbatim>\<open>\x\<close> and puts the JSON escape of the
  character in place of the two digits.
\<close>

fun skip_pairs :: "string \<Rightarrow> string \<times> string" where
  "skip_pairs (a # b # r) =
     (if a = CHR 0x5C \<and> b = CHR 0x5C
      then (case skip_pairs r of (p, r1) \<Rightarrow> (a # b # p, r1))
      else ([], a # b # r))"
| "skip_pairs s = ([], s)"

text \<open>After the pairs: \<^verbatim>\<open>\xHH\<close>; gives the kept text, the value and the rest.\<close>

definition hex_escape :: "string \<Rightarrow> (string \<times> nat \<times> string) option" where
  "hex_escape s =
     (case skip_pairs s of
        (p, b # x # h1 # h2 # r) \<Rightarrow>
          if b = CHR 0x5C \<and> x = CHR ''x'' \<and> is_hex h1 \<and> is_hex h2
          then Some (p, hex_val h1 * 16 + hex_val h2, r) else None
      | _ \<Rightarrow> None)"

text \<open>
  The pattern tried at one position: first the alternative \<open>^\<close> (only at the start of
  the text), then a character that is not a backslash.
\<close>

definition match_here :: "bool \<Rightarrow> string \<Rightarrow> (string \<times> nat \<times> string) option" where
  "match_here at_start s =
     (case (if at_start then hex_escape s else None) of
        Some m \<Rightarrow> Some m
      | None \<Rightarrow>
          (case s of
             [] \<Rightarrow> None
           | c # r \<Rightarrow>
               if c = CHR 0x5C then None
               else (case hex_escape r of
                       None \<Rightarrow> None
                     | Some (p, n, r1) \<Rightarrow> Some (c # p, n, r1))))"

definition repl :: "string \<times> nat \<times> string \<Rightarrow> string" where
  "repl m = (case m of (kept, n, r) \<Rightarrow> kept @ json_dumps_chr n)"

lemma skip_pairs_length: "skip_pairs s = (p, r) \<Longrightarrow> length r \<le> length s"
proof (induction s arbitrary: p r rule: skip_pairs.induct)
  case (1 a b t)
  then show ?case
    by (cases "skip_pairs t") (auto split: if_splits)
qed auto

lemma hex_escape_length: "hex_escape s = Some (p, n, r) \<Longrightarrow> length r < length s"
proof -
  assume h: "hex_escape s = Some (p, n, r)"
  obtain q t where qt: "skip_pairs s = (q, t)"
    by (cases "skip_pairs s")
  from h qt have "length r < length t"
    by (auto simp: hex_escape_def split: list.splits if_splits)
  with skip_pairs_length [OF qt] show ?thesis
    by simp
qed

lemma match_here_length: "match_here b s = Some (p, n, r) \<Longrightarrow> length r < length s"
  by (auto simp: match_here_def split: option.splits list.splits if_splits
      dest!: hex_escape_length)

text \<open>
  \<open>re.sub\<close>: the pattern is tried at each position from the left; after a match the
  search goes on behind it, and a character at which nothing matches is copied.
\<close>

function sub_scan :: "bool \<Rightarrow> string \<Rightarrow> string" where
  "sub_scan at_start s =
     (case match_here at_start s of
        Some m \<Rightarrow> repl m @ sub_scan False (snd (snd m))
      | None \<Rightarrow> (case s of [] \<Rightarrow> [] | c # cs \<Rightarrow> c # sub_scan False cs))"
  by pat_completeness auto
termination
  by (relation "measure (\<lambda>(b, s). length s)") (auto dest: match_here_length)

definition js_decode :: "string \<Rightarrow> error + json" where
  "js_decode s = json_decode (sub_scan True s)"

section \<open>URL helpers (\<open>urlparse\<close>, \<open>urlunquote\<close>)\<close>

text \<open>
  The path component of \<open>urlparse(url)\<close>, following \<open>urllib.parse\<close>: leading control
  characters and spaces are dropped and tab, carriage return and line feed removed; a
  scheme is split off at the first colon when everything before it is a scheme
  character; a network location after \<open>//\<close> runs to the next \<open>/\<close>, \<open>?\<close> or \<open>#\<close>;
  the fragment, the query and (for the schemes that use them, the empty scheme among
  them) the parameters of the last segment are cut off.
\<close>

definition scheme_char :: "char \<Rightarrow> bool" where
  "scheme_char c = (is_alpha c \<or> is_digit c \<or> c = CHR ''+'' \<or> c = CHR ''-'' \<or> c = CHR ''.'')"

definition uses_params :: "string list" where
  "uses_params = [[], ''ftp'', ''hdl'', ''prospero'', ''http'', ''imap'', ''https'', ''shttp'',
     ''rtsp'', ''rtspu'', ''sip'', ''sips'', ''mms'', ''sftp'', ''tel'']"

definition split_scheme :: "string \<Rightarrow> string \<times> string" where
  "split_scheme url =
     (let pre = before_chr CHR '':'' url
      in if CHR '':'' \<in> set url \<and> pre \<noteq> [] \<and> is_alpha (hd pre) \<and> list_all scheme_char pre
         then (lower pre, after_chr CHR '':'' url)
         else ([], url))"

definition split_netloc :: "string \<Rightarrow> string" where
  "split_netloc url =
     (if take 2 url = ''//''
      then dropWhile (\<lambda>c. c \<noteq> CHR ''/'' \<and> c \<noteq> CHR ''?'' \<and> c \<noteq> CHR ''#'') (drop 2 url)
      else url)"

text \<open>\<open>_splitparams\<close>: the first \<open>;\<close> behind the last \<open>/\<close>.\<close>

definition split_params :: "string \<Rightarrow> string" where
  "split_params url =
     (let segs = split_chr CHR ''/'' url;
          front = concat (map (\<lambda>g. g @ ''/'') (butlast segs))
      in front @ before_chr CHR '';'' (last segs))"

definition urlparse_path :: "string \<Rightarrow> string" where
  "urlparse_path url0 =
     (let url1 = filter (\<lambda>c. c \<noteq> CHR 0x09 \<and> c \<noteq> CHR 0x0A \<and> c \<noteq> CHR 0x0D)
                   (dropWhile (\<lambda>c. code c \<le> 32) url0);
          (scheme, url2) = split_scheme url1;
          url3 = split_netloc url2;
          url4 = before_chr CHR ''#'' url3;
          url5 = before_chr CHR ''?'' url4
      in if scheme \<in> set uses_params then split_params url5 else url5)"

text \<open>
  \<open>urlunquote\<close>: each \<open>%HH\<close> becomes the byte \<open>HH\<close>, a \<open>%\<close> that is not followed
  by two hexadecimal digits stays. Python decodes the bytes as UTF-8; a byte from 0x80
  on leaves the alphabet of the model.
\<close>

fun urlunquote :: "string \<Rightarrow> error + string" where
  "urlunquote [] = Inr []"
| "urlunquote (c # r) =
     (if c = CHR ''%'' then
        (case r of
           h1 # h2 # r1 \<Rightarrow>
             if is_hex h1 \<and> is_hex h2 then
               (if hex_val h1 * 16 + hex_val h2 < 128
                then (case urlunquote r1 of
                        Inl e \<Rightarrow> Inl e
                      | Inr t \<Rightarrow> Inr (char_of (hex_val h1 * 16 + hex_val h2) # t))
                else Inl OutsideModel)
             else (case urlunquote r of Inl e \<Rightarrow> Inl e | Inr t \<Rightarrow> Inr (c # t))
         | _ \<Rightarrow> (case urlunquote r of Inl e \<Rightarrow> Inl e | Inr t \<Rightarrow> Inr (c # t)))
      else (case urlunquote r of Inl e \<Rightarrow> Inl e | Inr t \<Rightarrow> Inr (c # t)))"

section \<open>The link derivation (\<open>parse_storage\<close>)\<close>

text \<open>
  \<open>HTMLParser.feed\<close> is library code: a document is given as the sequence of handler
  calls the tokenizer makes for it. \<open>TheHTMLParser\<close> overrides \<open>handle_starttag\<close> and
  \<open>handle_data\<close>; every other call (end tags, comments, declarations) leaves its state
  as it is.
\<close>

datatype html_event =
    StartTag string "(string \<times> string) list"
  | EndTag string
  | Data string
  | Comment string

record parser_state =
  script :: bool
  jsdata :: "jsdata option"

definition parser_init :: parser_state where
  "parser_init = \<lparr>script = False, jsdata = None\<rparr>"

definition handle_starttag :: "parser_state \<Rightarrow> string \<Rightarrow> (string \<times> string) list \<Rightarrow> parser_state" where
  "handle_starttag st tag attrs = st\<lparr>script := (lower tag = ''script'')\<rparr>"

definition handle_data :: "parser_state \<Rightarrow> string \<Rightarrow> parser_state" where
  "handle_data st data =
     (if \<not> script st then st
      else (case jsreg_match (strip data) of
              None \<Rightarrow> st
            | Some m \<Rightarrow> st\<lparr>jsdata := Some m\<rparr>))"

fun handle :: "parser_state \<Rightarrow> html_event \<Rightarrow> parser_state" where
  "handle st (StartTag tag attrs) = handle_starttag st tag attrs"
| "handle st (Data data) = handle_data st data"
| "handle st (EndTag tag) = st"
| "handle st (Comment text) = st"

definition feed :: "parser_state \<Rightarrow> html_event list \<Rightarrow> parser_state" where
  "feed st html = foldl handle st html"

record link =
  href :: string
  name :: string

text \<open>\<open>'%s' % v\<close> for a decoded literal.\<close>

fun fmt :: "json \<Rightarrow> string" where
  "fmt (JInt n) = str_int n"
| "fmt (JStr s) = s"

text \<open>
  The arithmetic of \<open>parse_storage\<close> on the decoded literals. \<open>len\<close>, \<open>-\<close>, \<open>min\<close> and
  \<open>pow\<close> raise \<open>TypeError\<close> on operands of the wrong type; a negative exponent gives a
  float, which the model does not represent.
\<close>

definition compute :: "json \<Rightarrow> json \<Rightarrow> json \<Rightarrow> json \<Rightarrow> json \<Rightarrow> error + int" where
  "compute a str start len expo =
     (case (str, start, len) of
        (JStr s, JInt st, JInt ln) \<Rightarrow>
          (case (a, expo) of
             (JInt av, JInt pw) \<Rightarrow>
               if pw < 0 then Inl OutsideModel
               else Inr (av ^ nat pw + min (int (length s) - st) ln)
           | _ \<Rightarrow> Inl TypeError)
      | _ \<Rightarrow> Inl TypeError)"

definition bind :: "error + 'a \<Rightarrow> ('a \<Rightarrow> error + 'b) \<Rightarrow> error + 'b" where
  "bind m f = (case m of Inl e \<Rightarrow> Inl e | Inr v \<Rightarrow> f v)"

definition derive :: "jsdata \<Rightarrow> error + link" where
  "derive d =
     bind (js_decode (js_a d)) (\<lambda>a.
     bind (js_decode (js_str d)) (\<lambda>str.
     bind (js_decode (js_substr_start d)) (\<lambda>start.
     bind (js_decode (js_substr_length d)) (\<lambda>len.
     bind (js_decode (js_url_head d)) (\<lambda>head.
     bind (js_decode (js_power d)) (\<lambda>expo.
     bind (js_decode (js_url_tail d)) (\<lambda>tail.
     bind (compute a str start len expo) (\<lambda>computed.
       let h = fmt head @ str_int computed @ fmt tail
       in bind (urlunquote (urlparse_path h)) (\<lambda>p.
            Inr \<lparr>href = h, name = last (split_chr CHR ''/'' p)\<rparr>)))))))))"

definition parse_storage :: "html_event list \<Rightarrow> error + link" where
  "parse_storage html =
     (case jsdata (feed parser_init html) of
        None \<Rightarrow> Inl TypeError
      | Some d \<Rightarrow> derive d)"

section \<open>The environment: files, network, clock\<close>

text \<open>
  The file system is a map from paths to files; directories and permissions are not
  modelled, so opening a file for writing always succeeds. The server, the clock, the
  date parser, the HTML tokenizer and \<open>urljoin\<close> are library or outside behaviour
  and come as parameters. A response body is given as the results of the successive
  \<open>read\<close> calls on it (a read behind the last one returns no bytes).
\<close>

record file_node =
  content :: string
  mtime :: "int option"

record response =
  getcode :: int
  info :: "(string \<times> string) list"
  chunks :: "string list"

record env =
  http :: "string \<Rightarrow> (string \<times> string) list \<Rightarrow> response"
  clock :: "nat \<Rightarrow> int"
  parsedate :: "string \<Rightarrow> int option"
  tokenize :: "string \<Rightarrow> html_event list"
  urljoin :: "string \<Rightarrow> string \<Rightarrow> string"

record options =
  opt_url :: string
  opt_file :: "string option"
  opt_dir :: "string option"
  opt_mtime :: bool

datatype status = DL_PROGRESS_START | DL_PROGRESS_READ | DL_PROGRESS_WROTE | DL_PROGRESS_DONE

record event =
  ev_status :: status
  ev_start :: int
  ev_now :: int
  ev_offset :: nat
  ev_added :: nat
  ev_current :: nat
  ev_total :: "int option"

record world =
  fs :: "string \<rightharpoonup> file_node"
  requests :: "(string \<times> (string \<times> string) list) list"
  trace :: "event list"
  ticks :: nat

type_synonym 'a action = "world \<Rightarrow> (error + 'a) \<times> world"

definition ret :: "'a \<Rightarrow> 'a action" where
  "ret v w = (Inr v, w)"

definition raise :: "error \<Rightarrow> 'a action" where
  "raise e w = (Inl e, w)"

definition seq :: "'a action \<Rightarrow> ('a \<Rightarrow> 'b action) \<Rightarrow> 'b action" where
  "seq m f w = (case m w of (Inl e, w1) \<Rightarrow> (Inl e, w1) | (Inr v, w1) \<Rightarrow> f v w1)"

text \<open>\<open>time.time()\<close>: the next reading of the clock.\<close>

definition time_now :: "env \<Rightarrow> int action" where
  "time_now en w = (Inr (clock en (ticks w)), w\<lparr>ticks := Suc (ticks w)\<rparr>)"

text \<open>\<open>Main.request\<close>: an \<open>HTTPError\<close> is caught and is the response.\<close>

definition request :: "env \<Rightarrow> string \<Rightarrow> (string \<times> string) list \<Rightarrow> response action" where
  "request en url hs w = (Inr (http en url hs), w\<lparr>requests := requests w @ [(url, hs)]\<rparr>)"

definition assert_status_code :: "int \<Rightarrow> int \<Rightarrow> unit action" where
  "assert_status_code c expected = (if c \<noteq> expected then raise (InvalidStatusCode c expected) else ret ())"

text \<open>\<open>int(s)\<close> on a string: surrounding whitespace, a sign, digits with single underscores.\<close>

fun digits_ok :: "string \<Rightarrow> bool" where
  "digits_ok [] = False"
| "digits_ok [c] = is_digit c"
| "digits_ok (c # d # r) =
     (if is_digit c then
        (if d = CHR ''_'' then (case r of [] \<Rightarrow> False | e # _ \<Rightarrow> is_digit e \<and> digits_ok r)
         else digits_ok (d # r))
      else False)"

definition py_int :: "string \<Rightarrow> int option" where
  "py_int s =
     (let t = strip s;
          neg = (case t of [] \<Rightarrow> False | c # _ \<Rightarrow> c = CHR ''-'');
          d = (case t of [] \<Rightarrow> [] | c # r \<Rightarrow> if c = CHR ''-'' \<or> c = CHR ''+'' then r else t)
      in if digits_ok d
         then Some (let n = int (dec_val (filter (\<lambda>c. c \<noteq> CHR ''_'') d)) in if neg then - n else n)
         else None)"

text \<open>
  \<open>request_header_get\<close>: header names compare without case, the first one counts. With
  a cast, a failing cast gives \<open>None\<close>; \<open>int(None)\<close> fails as well.
\<close>

definition header_lookup :: "(string \<times> string) list \<Rightarrow> string \<Rightarrow> string option" where
  "header_lookup hs h = map_option snd (find (\<lambda>kv. lower (fst kv) = lower h) hs)"

definition request_header_get :: "(string \<times> string) list \<Rightarrow> string \<Rightarrow> string option" where
  "request_header_get hs h = header_lookup hs h"

definition request_header_get_int :: "(string \<times> string) list \<Rightarrow> string \<Rightarrow> int option" where
  "request_header_get_int hs h = (case header_lookup hs h of None \<Rightarrow> None | Some r \<Rightarrow> py_int r)"

text \<open>
  \<open>parse_http_header_date\<close>: \<open>parsedate_tz\<close> gives \<open>None\<close> for a value it cannot read,
  and \<open>mktime_tz(None)\<close> raises \<open>TypeError\<close>.
\<close>

definition parse_http_header_date :: "env \<Rightarrow> string \<Rightarrow> int action" where
  "parse_http_header_date en v = (case parsedate en v of None \<Rightarrow> raise TypeError | Some t \<Rightarrow> ret t)"

section \<open>The resumable downloader (\<open>request_download\<close>)\<close>

record dlinfo =
  dl_size :: "int option"
  dl_modified :: "int option"

text \<open>A call of the progress callback: the event is delivered, and the callback may raise.\<close>

definition emit :: "(event \<Rightarrow> error + unit) \<Rightarrow> event \<Rightarrow> unit action" where
  "emit progress e w = (progress e, w\<lparr>trace := trace w @ [e]\<rparr>)"

definition fp_write :: "string \<Rightarrow> string \<Rightarrow> unit action" where
  "fp_write dest data w =
     (Inr (),
      w\<lparr>fs := (fs w)(dest \<mapsto>
         (case fs w dest of
            None \<Rightarrow> \<lparr>content = data, mtime = None\<rparr>
          | Some f \<Rightarrow> f\<lparr>content := content f @ data\<rparr>))\<rparr>)"

text \<open>
  The \<open>while True\<close> loop over the reads of the body: it stops at the first read that
  returns nothing and gives the final \<open>size\<close>.
\<close>

fun read_loop ::
  "env \<Rightarrow> (event \<Rightarrow> error + unit) \<Rightarrow> string \<Rightarrow> int \<Rightarrow> nat \<Rightarrow> int option \<Rightarrow> string list \<Rightarrow> nat \<Rightarrow> nat action"
where
  "read_loop en progress dest start offset tot [] sz = ret sz"
| "read_loop en progress dest start offset tot (data # rest) sz =
     (if length data = 0 then ret sz
      else
        seq (time_now en) (\<lambda>t1.
        seq (emit progress \<lparr>ev_status = DL_PROGRESS_READ, ev_start = start, ev_now = t1,
               ev_offset = offset, ev_added = length data, ev_current = sz + length data,
               ev_total = tot\<rparr>) (\<lambda>_.
        seq (fp_write dest data) (\<lambda>_.
        seq (time_now en) (\<lambda>t2.
        seq (emit progress \<lparr>ev_status = DL_PROGRESS_WROTE, ev_start = start, ev_now = t2,
               ev_offset = offset, ev_added = length data, ev_current = sz + length data,
               ev_total = tot\<rparr>) (\<lambda>_.
        read_loop en progress dest start offset tot rest (sz + length data)))))))"

text \<open>Opening the output file: append mode keeps what is there, write mode truncates.\<close>

definition fp_open :: "string \<Rightarrow> bool \<Rightarrow> nat action" where
  "fp_open dest cont w =
     (case (if cont then fs w dest else None) of
        None \<Rightarrow> (Inr 0, w\<lparr>fs := (fs w)(dest \<mapsto> \<lparr>content = [], mtime = None\<rparr>)\<rparr>)
      | Some f \<Rightarrow> (Inr (length (content f)), w))"

text \<open>
  The result is \<open>None\<close> where the Python function returns without a value (the 416
  branch) and the dictionary otherwise.
\<close>

definition request_download ::
  "env \<Rightarrow> string \<Rightarrow> string \<Rightarrow> (event \<Rightarrow> error + unit) \<Rightarrow> bool \<Rightarrow> dlinfo option action"
where
  "request_download en url dest progress cont =
     seq (fp_open dest cont) (\<lambda>offset.
     let continued = (cont \<and> offset \<noteq> 0);
         expected = (if continued then 206 else 200);
         hs = [(''User-Agent'', [])] @
              (if continued then [(''Range'', ''bytes='' @ str_int (int offset) @ ''-'')] else [])
     in
     seq (time_now en) (\<lambda>start.
     seq (emit progress \<lparr>ev_status = DL_PROGRESS_START, ev_start = start, ev_now = start,
            ev_offset = offset, ev_added = 0, ev_current = offset, ev_total = None\<rparr>) (\<lambda>_.
     seq (request en url hs) (\<lambda>res.
     if continued \<and> getcode res = 416 then
       seq (time_now en) (\<lambda>t.
       seq (emit progress \<lparr>ev_status = DL_PROGRESS_DONE, ev_start = start, ev_now = t,
              ev_offset = offset, ev_added = 0, ev_current = offset,
              ev_total = Some (int offset)\<rparr>) (\<lambda>_.
       ret None))
     else
       seq (assert_status_code (getcode res) expected) (\<lambda>_.
       let content_length = request_header_get_int (info res) ''content-length'' in
       seq (case request_header_get (info res) ''last-modified'' of
              None \<Rightarrow> ret None
            | Some m \<Rightarrow> if m = [] then ret None
                        else seq (parse_http_header_date en m) (\<lambda>t. ret (Some t))) (\<lambda>modified.
       let tot = (case content_length of None \<Rightarrow> None | Some l \<Rightarrow> Some (int offset + l)) in
       seq (read_loop en progress dest start offset tot (chunks res) offset) (\<lambda>sz.
       seq (time_now en) (\<lambda>t.
       seq (emit progress \<lparr>ev_status = DL_PROGRESS_DONE, ev_start = start, ev_now = t,
              ev_offset = offset, ev_added = 0, ev_current = sz, ev_total = tot\<rparr>) (\<lambda>_.
       ret (Some \<lparr>dl_size = tot, dl_modified = modified\<rparr>))))))))))"

section \<open>The orchestrator (\<open>download\<close>)\<close>

text \<open>
  \<open>download_progress\<close> renders a progress line. Its output is not modelled, its
  failure is: for a \<open>WROTE\<close> or \<open>DONE\<close> event it computes \<open>total - offset\<close>, which
  raises \<open>TypeError\<close> when \<open>total\<close> is \<open>None\<close>.
\<close>

definition download_progress :: "event \<Rightarrow> error + unit" where
  "download_progress e =
     (if ev_status e = DL_PROGRESS_READ then Inr ()
      else if ev_status e = DL_PROGRESS_START then Inr ()
      else (case ev_total e of None \<Rightarrow> Inl TypeError | Some t \<Rightarrow> Inr ()))"

definition stat :: "string \<Rightarrow> file_node option action" where
  "stat path w = (Inr (fs w path), w)"

text \<open>\<open>os.path.join\<close> of two components (POSIX).\<close>

definition path_join :: "string \<Rightarrow> string \<Rightarrow> string" where
  "path_join a b =
     (if take 1 b = ''/'' then b
      else if a = [] \<or> last a = CHR ''/'' then a @ b
      else a @ ''/'' @ b)"

definition prog :: string where
  "prog = ''zsdl.py''"

definition create_out_dir :: "options \<Rightarrow> string" where
  "create_out_dir opts = (case opt_dir opts of None \<Rightarrow> [] | Some d \<Rightarrow> if d \<noteq> [] then d else [])"

definition create_file_name_temp :: "string \<Rightarrow> string" where
  "create_file_name_temp file_name = ''.'' @ prog @ ''.'' @ file_name"

record storage =
  st_url :: string
  st_name :: string

definition create_file_name :: "options \<Rightarrow> storage option \<Rightarrow> string option" where
  "create_file_name opts st =
     (case opt_file opts of
        Some f \<Rightarrow> if f \<noteq> [] then Some f else map_option st_name st
      | None \<Rightarrow> map_option st_name st)"

definition download_verify_size :: "string \<Rightarrow> int \<Rightarrow> unit action" where
  "download_verify_size file_path file_size =
     seq (stat file_path) (\<lambda>s.
       case s of
         None \<Rightarrow> raise TypeError
       | Some f \<Rightarrow>
           if int (length (content f)) \<noteq> file_size
           then raise (UnexpectedSize (length (content f)) file_size)
           else ret ())"

definition download_set_mtime :: "string \<Rightarrow> int \<Rightarrow> unit action" where
  "download_set_mtime file_path file_mtime w =
     (case fs w file_path of
        None \<Rightarrow> (Inl (FileNotFound file_path), w)
      | Some f \<Rightarrow> (Inr (), w\<lparr>fs := (fs w)(file_path \<mapsto> f\<lparr>mtime := Some file_mtime\<rparr>)\<rparr>))"

definition assert_not_exists :: "string \<Rightarrow> unit action" where
  "assert_not_exists file_path =
     seq (stat file_path) (\<lambda>s.
       case s of None \<Rightarrow> ret () | Some f \<Rightarrow> raise (AlreadyExists file_path))"

definition os_remove :: "string \<Rightarrow> unit action" where
  "os_remove path w =
     (case fs w path of
        None \<Rightarrow> (Inl (FileNotFound path), w)
      | Some f \<Rightarrow> (Inr (), w\<lparr>fs := (fs w)(path := None)\<rparr>))"

definition os_rename :: "string \<Rightarrow> string \<Rightarrow> unit action" where
  "os_rename src dst w =
     (case fs w src of
        None \<Rightarrow> (Inl (FileNotFound src), w)
      | Some f \<Rightarrow> (Inr (), w\<lparr>fs := ((fs w)(src := None))(dst \<mapsto> f)\<rparr>))"

text \<open>\<open>body.decode('utf-8')\<close>: the identity on ASCII; other bytes leave the model.\<close>

definition request_data_decode :: "string \<Rightarrow> string action" where
  "request_data_decode body = (if list_all (\<lambda>c. code c < 128) body then ret body else raise OutsideModel)"

definition request_data :: "env \<Rightarrow> string \<Rightarrow> (int \<times> (string \<times> string) list \<times> string) action" where
  "request_data en url =
     seq (request en url [(''User-Agent'', [])]) (\<lambda>res.
       ret (getcode res, info res, concat (chunks res)))"

definition lift :: "error + 'a \<Rightarrow> 'a action" where
  "lift r w = (r, w)"

definition fetch_storage :: "env \<Rightarrow> options \<Rightarrow> string \<Rightarrow> storage action" where
  "fetch_storage en opts url =
     seq (request_data en (opt_url opts)) (\<lambda>(c, hs, body).
     seq (assert_status_code c 200) (\<lambda>_.
     seq (request_data_decode body) (\<lambda>html.
     seq (lift (parse_storage (tokenize en html))) (\<lambda>parsed.
       ret \<lparr>st_url = urljoin en url (href parsed), st_name = name parsed\<rparr>))))"

text \<open>The block \<open># Verify size.\<close> of \<open>download\<close>.\<close>

definition verify_size :: "string \<Rightarrow> dlinfo \<Rightarrow> unit action" where
  "verify_size file_name_temp_path dl =
     (case dl_size dl of
        None \<Rightarrow> ret ()
      | Some storage_size \<Rightarrow>
          (\<lambda>w. case download_verify_size file_name_temp_path storage_size w of
                 (Inl ex, w1) \<Rightarrow> seq (os_remove file_name_temp_path) (\<lambda>_. raise ex) w1
               | (Inr u, w1) \<Rightarrow> (Inr u, w1)))"

text \<open>The block \<open># Set the modified time if requested.\<close> of \<open>download\<close>.\<close>

definition set_mtime :: "options \<Rightarrow> string \<Rightarrow> dlinfo \<Rightarrow> unit action" where
  "set_mtime opts file_name_temp_path dl =
     (if opt_mtime opts then
        (case dl_modified dl of
           None \<Rightarrow> ret ()
         | Some storage_mtime \<Rightarrow> download_set_mtime file_name_temp_path storage_mtime)
      else ret ())"

text \<open>
  \<open>download\<close>. Where \<open>request_download\<close> has returned \<open>None\<close>, \<open>dlinfo['size']\<close>
  raises \<open>TypeError\<close>.
\<close>

definition download :: "env \<Rightarrow> options \<Rightarrow> unit action" where
  "download en opts =
     (let out_dir = create_out_dir opts;
          file_name0 = create_file_name opts None
      in
      seq (case file_name0 of
             None \<Rightarrow> ret ()
           | Some f \<Rightarrow> assert_not_exists (path_join out_dir f)) (\<lambda>_.
      seq (fetch_storage en opts (opt_url opts)) (\<lambda>st.
      seq (case file_name0 of
             None \<Rightarrow> (case create_file_name opts (Some st) of
                        None \<Rightarrow> raise TypeError
                      | Some f \<Rightarrow> ret f)
           | Some f \<Rightarrow> ret f) (\<lambda>file_name.
      let file_name_path = path_join out_dir file_name in
      seq (assert_not_exists file_name_path) (\<lambda>_.
      let file_name_temp = create_file_name_temp file_name;
          file_name_temp_path = path_join out_dir file_name_temp
      in
      seq (request_download en (st_url st) file_name_temp_path download_progress True) (\<lambda>dlinfo.
      case dlinfo of
        None \<Rightarrow> raise TypeError
      | Some dl \<Rightarrow>
          seq (verify_size file_name_temp_path dl) (\<lambda>_.
          seq (set_mtime opts file_name_temp_path dl) (\<lambda>_.
          os_rename file_name_temp_path file_name_path))))))))"

section \<open>Example inputs\<close>

definition dq :: string where
  "dq = [CHR 0x22]"

definition bsl :: string where
  "bsl = [CHR 0x5C]"

definition nl :: string where
  "nl = [CHR 0x0A]"

definition button :: string where
  "button = ''document.getElementById('' @ [CHR 0x27] @ ''dlbutton'' @ [CHR 0x27] @ '')''"

text \<open>The script of the comment in \<open>parse_storage\<close>, up to the \<open>dlbutton\<close> link.\<close>

definition ex_script :: string where
  "ex_script =
     nl @ ''    var a = 42;'' @ nl @
     ''    '' @ button @ ''.omg = '' @ dq @ ''asdasd'' @ dq @ ''.substr(0, 3);'' @ nl @
     ''    var b = '' @ button @ ''.omg.length;'' @ nl @
     ''    '' @ button @ ''.href = '' @ dq @ ''/d/uN1qu3/'' @ dq @ ''+(Math.pow(a, 3)+b)+'' @
       dq @ ''/file.ext'' @ dq @ '';'' @ nl"


definition ex_html :: "html_event list" where
  "ex_html =
     [StartTag ''html'' [], StartTag ''body'' [],
      StartTag ''script'' [(''type'', ''text/javascript'')], Data ex_script, EndTag ''script'',
      EndTag ''body'', EndTag ''html'']"






section \<open>The link derivation: properties\<close>









text \<open>
  C2. \<open>js_decode\<close> on the literal \<^verbatim>\<open>"\x41\x42"\<close>: the substitution replaces the
  first escape only, because the match for it has taken the character before the second
  one; the remaining \<^verbatim>\<open>\x42\<close> is not JSON, so decoding fails, whereas the literal
  \<^verbatim>\<open>"AB"\<close> decodes to \<open>AB\<close>. Escapes that are not adjacent are both replaced.
\<close>

theorem js_decode_adjacent_escapes:
  "sub_scan True (dq @ bsl @ ''x41'' @ bsl @ ''x42'' @ dq) = dq @ ''A'' @ bsl @ ''x42'' @ dq
   \<and> js_decode (dq @ bsl @ ''x41'' @ bsl @ ''x42'' @ dq) = Inl JSONDecodeError
   \<and> js_decode (dq @ ''AB'' @ dq) = Inr (JStr ''AB'')
   \<and> js_decode (dq @ bsl @ ''x41-'' @ bsl @ ''x42'' @ dq) = Inr (JStr ''A-B'')"
  by code_simp




section \<open>The downloader: properties\<close>

text \<open>The events a call has delivered: what the trace has gained between two states.\<close>

definition new_events :: "world \<Rightarrow> world \<Rightarrow> event list" where
  "new_events w w' = drop (length (trace w)) (trace w')"

text \<open>
  The offset of a call, as \<open>request_download\<close> determines it once at its start:
  \<open>fp.tell()\<close> on the file opened for appending, or 0.
\<close>

definition call_offset :: "world \<Rightarrow> string \<Rightarrow> bool \<Rightarrow> nat" where
  "call_offset w dest cont =
     (if cont then (case fs w dest of None \<Rightarrow> 0 | Some f \<Rightarrow> length (content f)) else 0)"

text \<open>The request headers of a call.\<close>

definition call_headers :: "nat \<Rightarrow> bool \<Rightarrow> (string \<times> string) list" where
  "call_headers offset cont =
     [(''User-Agent'', [])] @
     (if cont \<and> offset \<noteq> 0 then [(''Range'', ''bytes='' @ str_int (int offset) @ ''-'')] else [])"

text \<open>
  The ordering contract of the progress events. \<open>paired\<close>: the events are Read/Wrote
  pairs, each Wrote with the byte counts of its Read. \<open>ordered\<close>: a Start first, a
  Done with no added bytes last, pairs in between.
\<close>

fun paired :: "event list \<Rightarrow> bool" where
  "paired [] = True"
| "paired [e] = False"
| "paired (r # v # rest) =
     (ev_status r = DL_PROGRESS_READ \<and> ev_status v = DL_PROGRESS_WROTE \<and>
      ev_added v = ev_added r \<and> ev_current v = ev_current r \<and> paired rest)"

definition ordered :: "event list \<Rightarrow> bool" where
  "ordered evs =
     (case evs of
        [] \<Rightarrow> False
      | s # rest \<Rightarrow>
          ev_status s = DL_PROGRESS_START \<and> rest \<noteq> [] \<and>
          ev_status (last rest) = DL_PROGRESS_DONE \<and> ev_added (last rest) = 0 \<and>
          paired (butlast rest))"

definition is_rw :: "event \<Rightarrow> bool" where
  "is_rw e = (ev_status e = DL_PROGRESS_READ \<or> ev_status e = DL_PROGRESS_WROTE)"

text \<open>What holds of the events of the read loop, entered with \<open>size = sz\<close>.\<close>

definition body_ok :: "nat \<Rightarrow> int option \<Rightarrow> nat \<Rightarrow> event list \<Rightarrow> bool" where
  "body_ok offset tot sz evs =
     ((\<forall>e \<in> set evs. ev_offset e = offset \<and> ev_total e = tot \<and> sz \<le> ev_current e \<and> is_rw e)
      \<and> sorted (map ev_current evs))"

lemma seq_ret: "seq (ret v) f = f v"
  by (rule ext) (simp add: seq_def ret_def)

lemma seq_raise: "seq (raise e) f w = (Inl e, w)"
  by (simp add: seq_def raise_def)

lemma seq_time_now: "seq (time_now en) f w = f (clock en (ticks w)) (w\<lparr>ticks := Suc (ticks w)\<rparr>)"
  by (simp add: seq_def time_now_def)

lemma seq_emit:
  "seq (emit progress e) f w =
     (case progress e of
        Inl x \<Rightarrow> (Inl x, w\<lparr>trace := trace w @ [e]\<rparr>)
      | Inr u \<Rightarrow> f u (w\<lparr>trace := trace w @ [e]\<rparr>))"
  by (simp add: seq_def emit_def split: sum.splits)

lemma seq_request:
  "seq (request en url hs) f w = f (http en url hs) (w\<lparr>requests := requests w @ [(url, hs)]\<rparr>)"
  by (simp add: seq_def request_def)

lemma seq_fp_write:
  "seq (fp_write dest data) f w =
     f () (w\<lparr>fs := (fs w)(dest \<mapsto>
         (case fs w dest of
            None \<Rightarrow> \<lparr>content = data, mtime = None\<rparr>
          | Some g \<Rightarrow> g\<lparr>content := content g @ data\<rparr>))\<rparr>)"
  by (simp add: seq_def fp_write_def)

lemma fp_open_result:
  "fp_open dest cont w =
     (Inr (call_offset w dest cont),
      (if cont \<and> fs w dest \<noteq> None then w
       else w\<lparr>fs := (fs w)(dest \<mapsto> \<lparr>content = [], mtime = None\<rparr>)\<rparr>))"
  by (auto simp: fp_open_def call_offset_def split: option.splits)

lemma seq_fp_open:
  "seq (fp_open dest cont) f w =
     f (call_offset w dest cont)
       (if cont \<and> fs w dest \<noteq> None then w
        else w\<lparr>fs := (fs w)(dest \<mapsto> \<lparr>content = [], mtime = None\<rparr>)\<rparr>)"
  by (simp add: seq_def fp_open_result)

lemma seq_assoc: "seq (seq m f) g = seq m (\<lambda>x. seq (f x) g)"
  by (rule ext) (simp add: seq_def split: prod.splits sum.splits)

lemma seq_Pair:
  "seq (Pair (Inr v)) f = f v"
  "seq (Pair (Inl e)) f w = (Inl e, w)"
  by (rule ext) (simp_all add: seq_def)

lemmas seq_simps = seq_ret seq_raise seq_time_now seq_emit seq_request seq_fp_write seq_fp_open

lemma body_ok_Nil: "body_ok offset tot sz []"
  by (simp add: body_ok_def)

lemma body_ok_mono: "body_ok offset tot sz' evs \<Longrightarrow> sz \<le> sz' \<Longrightarrow> body_ok offset tot sz evs"
  by (auto simp: body_ok_def)

lemma body_ok_Cons:
  "ev_offset e = offset \<Longrightarrow> ev_total e = tot \<Longrightarrow> is_rw e \<Longrightarrow> ev_current e = c \<Longrightarrow>
   body_ok offset tot c evs \<Longrightarrow> body_ok offset tot c (e # evs)"
  by (auto simp: body_ok_def)

text \<open>The read loop: what it adds to the trace, and what it leaves alone.\<close>

lemma read_loop_trace:
  "\<exists>evs. trace (snd (read_loop en progress dest start offset tot cs sz w)) = trace w @ evs
     \<and> body_ok offset tot sz evs
     \<and> (\<forall>sz'. fst (read_loop en progress dest start offset tot cs sz w) = Inr sz'
          \<longrightarrow> paired evs \<and> sz \<le> sz')"
proof (induction cs arbitrary: sz w)
  case Nil
  show ?case
    by (simp add: ret_def body_ok_Nil)
next
  case (Cons data rest)
  show ?case
  proof (cases "length data = 0")
    case True
    then show ?thesis
      by (simp add: ret_def body_ok_Nil)
  next
    case False
    define t1 where "t1 = clock en (ticks w)"
    define t2 where "t2 = clock en (Suc (ticks w))"
    define c where "c = sz + length data"
    define r where "r = \<lparr>ev_status = DL_PROGRESS_READ, ev_start = start, ev_now = t1,
      ev_offset = offset, ev_added = length data, ev_current = c, ev_total = tot\<rparr>"
    define v where "v = \<lparr>ev_status = DL_PROGRESS_WROTE, ev_start = start, ev_now = t2,
      ev_offset = offset, ev_added = length data, ev_current = c, ev_total = tot\<rparr>"
    have okr: "body_ok offset tot sz [r]" and okrv: "body_ok offset tot sz [r, v]"
      by (simp_all add: body_ok_def r_def v_def c_def is_rw_def)
    show ?thesis
    proof (cases "progress r")
      case (Inl x)
      with False okr show ?thesis
        by (simp add: seq_simps r_def t1_def c_def)
    next
      case pr: (Inr u)
      show ?thesis
      proof (cases "progress v")
        case (Inl x)
        with False pr okrv show ?thesis
          by (simp add: seq_simps r_def v_def t1_def t2_def c_def)
      next
        case pv: (Inr u')
        define w' where "w' = w\<lparr>fs := (fs w)(dest \<mapsto>
            (case fs w dest of None \<Rightarrow> \<lparr>content = data, mtime = None\<rparr>
                             | Some g \<Rightarrow> g\<lparr>content := content g @ data\<rparr>)),
          ticks := Suc (Suc (ticks w)), trace := trace w @ [r, v]\<rparr>"
        have step: "read_loop en progress dest start offset tot (data # rest) sz w
                      = read_loop en progress dest start offset tot rest c w'"
          using False pr pv
          by (simp add: seq_simps r_def v_def t1_def t2_def c_def w'_def)
        from Cons.IH [of c w'] obtain evs where
          tr: "trace (snd (read_loop en progress dest start offset tot rest c w')) = trace w' @ evs"
          and ok: "body_ok offset tot c evs"
          and fin: "\<forall>sz'. fst (read_loop en progress dest start offset tot rest c w') = Inr sz'
                      \<longrightarrow> paired evs \<and> c \<le> sz'"
          by blast
        have "body_ok offset tot c (r # v # evs)"
          using ok by (intro body_ok_Cons) (simp_all add: r_def v_def is_rw_def)
        then have ok': "body_ok offset tot sz (r # v # evs)"
          by (rule body_ok_mono) (simp add: c_def)
        have pairs: "paired evs \<Longrightarrow> paired (r # v # evs)"
          by (simp add: r_def v_def)
        show ?thesis
          unfolding step
          using tr ok' fin pairs
          by (intro exI [of _ "r # v # evs"]) (auto simp: w'_def c_def)
      qed
    qed
  qed
qed


lemma read_loop_frame:
  "p \<noteq> dest \<Longrightarrow> fs (snd (read_loop en progress dest start offset tot cs sz w)) p = fs w p"
proof (induction cs arbitrary: sz w)
  case (Cons data rest)
  then show ?case
    by (simp add: seq_simps ret_def split: sum.splits)
qed (simp add: ret_def)

text \<open>The part of \<open>request_download\<close> behind the headers: the loop and the Done event.\<close>

lemma transfer_trace:
  fixes en progress dest start offset tot cs modified
  defines "T \<equiv>
     seq (read_loop en progress dest start offset tot cs offset) (\<lambda>sz.
     seq (time_now en) (\<lambda>t.
     seq (emit progress \<lparr>ev_status = DL_PROGRESS_DONE, ev_start = start, ev_now = t,
            ev_offset = offset, ev_added = 0, ev_current = sz, ev_total = tot\<rparr>) (\<lambda>_.
     ret (Some \<lparr>dl_size = tot, dl_modified = modified\<rparr>))))"
  shows "\<exists>evs. trace (snd (T w)) = trace w @ evs
     \<and> (\<forall>e \<in> set evs. ev_offset e = offset \<and> ev_total e = tot \<and> ev_status e \<noteq> DL_PROGRESS_START)
     \<and> body_ok offset tot offset (filter is_rw evs)
     \<and> (\<forall>v. fst (T w) = Inr v \<longrightarrow>
           v = Some \<lparr>dl_size = tot, dl_modified = modified\<rparr> \<and> evs \<noteq> [] \<and>
           ev_status (last evs) = DL_PROGRESS_DONE \<and> ev_added (last evs) = 0 \<and>
           paired (butlast evs))
     \<and> ((\<forall>e. progress e = Inr ()) \<longrightarrow> fst (T w) = Inr (Some \<lparr>dl_size = tot, dl_modified = modified\<rparr>))"
proof -
  define L where "L = read_loop en progress dest start offset tot cs offset w"
  obtain body where
    tr: "trace (snd L) = trace w @ body"
    and ok: "body_ok offset tot offset body"
    and fin: "\<forall>sz'. fst L = Inr sz' \<longrightarrow> paired body \<and> offset \<le> sz'"
    using read_loop_trace [of en progress dest start offset tot cs offset w]
    unfolding L_def by blast
  have rw: "filter is_rw body = body"
    using ok by (simp add: body_ok_def)
  have nostart: "\<forall>e \<in> set body. ev_status e \<noteq> DL_PROGRESS_START"
    using ok by (auto simp: body_ok_def is_rw_def)
  show ?thesis
  proof (cases "fst L")
    case (Inl x)
    then have "T w = (Inl x, snd L)"
      by (cases L) (simp add: T_def seq_def L_def)
    moreover have "\<not> (\<forall>e. progress e = Inr ())"
    proof
      assume acc: "\<forall>e. progress e = Inr ()"
      have "\<And>sz v. \<exists>sz'. fst (read_loop en progress dest start offset tot cs sz v) = Inr sz'"
      proof (induction cs)
        case Nil
        show ?case by (simp add: ret_def)
      next
        case (Cons data rest)
        then show ?case
          using acc by (simp add: seq_simps ret_def)
      qed
      with Inl show False
        by (metis L_def Inl_Inr_False)
    qed
    ultimately show ?thesis
      using tr ok rw nostart by (intro exI [of _ body]) (auto simp: body_ok_def)
  next
    case (Inr sz)
    define d where "d = \<lparr>ev_status = DL_PROGRESS_DONE, ev_start = start,
      ev_now = clock en (ticks (snd L)), ev_offset = offset, ev_added = 0, ev_current = sz,
      ev_total = tot\<rparr>"
    have T: "T w = (case progress d of
                      Inl x \<Rightarrow> (Inl x, (snd L)\<lparr>ticks := Suc (ticks (snd L)), trace := trace (snd L) @ [d]\<rparr>)
                    | Inr u \<Rightarrow> (Inr (Some \<lparr>dl_size = tot, dl_modified = modified\<rparr>),
                         (snd L)\<lparr>ticks := Suc (ticks (snd L)), trace := trace (snd L) @ [d]\<rparr>))"
      using Inr by (cases L) (simp add: T_def seq_def [of "read_loop en progress dest start offset tot cs offset"]
          L_def [symmetric] seq_simps d_def ret_def split: sum.splits)
    have f: "filter is_rw (body @ [d]) = body"
      using rw by (simp add: d_def is_rw_def)
    have "trace (snd (T w)) = trace w @ (body @ [d])"
      by (simp add: T tr split: sum.splits)
    moreover have "\<forall>e \<in> set (body @ [d]). ev_offset e = offset \<and> ev_total e = tot \<and> ev_status e \<noteq> DL_PROGRESS_START"
      using ok nostart by (auto simp: body_ok_def d_def)
    moreover have "body_ok offset tot offset (filter is_rw (body @ [d]))"
      using ok by (simp only: f)
    moreover have "\<forall>v. fst (T w) = Inr v \<longrightarrow>
           v = Some \<lparr>dl_size = tot, dl_modified = modified\<rparr> \<and> body @ [d] \<noteq> [] \<and>
           ev_status (last (body @ [d])) = DL_PROGRESS_DONE \<and> ev_added (last (body @ [d])) = 0 \<and>
           paired (butlast (body @ [d]))"
      using fin Inr by (auto simp: T d_def split: sum.splits)
    moreover have "(\<forall>e. progress e = Inr ()) \<longrightarrow> fst (T w) = Inr (Some \<lparr>dl_size = tot, dl_modified = modified\<rparr>)"
      by (simp add: T)
    ultimately show ?thesis
      by blast
  qed
qed

text \<open>
  \<open>request_download\<close> from the response on, as a function of its own, and the
  state in which the request is issued.
\<close>

definition after_response ::
  "env \<Rightarrow> string \<Rightarrow> (event \<Rightarrow> error + unit) \<Rightarrow> int \<Rightarrow> nat \<Rightarrow> bool \<Rightarrow> response \<Rightarrow> dlinfo option action"
where
  "after_response en dest progress start offset continued res =
     (if continued \<and> getcode res = 416 then
       seq (time_now en) (\<lambda>t.
       seq (emit progress \<lparr>ev_status = DL_PROGRESS_DONE, ev_start = start, ev_now = t,
              ev_offset = offset, ev_added = 0, ev_current = offset,
              ev_total = Some (int offset)\<rparr>) (\<lambda>_.
       ret None))
     else
       seq (assert_status_code (getcode res) (if continued then 206 else 200)) (\<lambda>_.
       let content_length = request_header_get_int (info res) ''content-length'' in
       seq (case request_header_get (info res) ''last-modified'' of
              None \<Rightarrow> ret None
            | Some m \<Rightarrow> if m = [] then ret None
                        else seq (parse_http_header_date en m) (\<lambda>t. ret (Some t))) (\<lambda>modified.
       let tot = (case content_length of None \<Rightarrow> None | Some l \<Rightarrow> Some (int offset + l)) in
       seq (read_loop en progress dest start offset tot (chunks res) offset) (\<lambda>sz.
       seq (time_now en) (\<lambda>t.
       seq (emit progress \<lparr>ev_status = DL_PROGRESS_DONE, ev_start = start, ev_now = t,
              ev_offset = offset, ev_added = 0, ev_current = sz, ev_total = tot\<rparr>) (\<lambda>_.
       ret (Some \<lparr>dl_size = tot, dl_modified = modified\<rparr>)))))))"

definition start_event :: "env \<Rightarrow> world \<Rightarrow> string \<Rightarrow> bool \<Rightarrow> event" where
  "start_event en w dest cont =
     \<lparr>ev_status = DL_PROGRESS_START, ev_start = clock en (ticks w), ev_now = clock en (ticks w),
      ev_offset = call_offset w dest cont, ev_added = 0, ev_current = call_offset w dest cont,
      ev_total = None\<rparr>"

definition opened :: "world \<Rightarrow> string \<Rightarrow> bool \<Rightarrow> world" where
  "opened w dest cont =
     (if cont \<and> fs w dest \<noteq> None then w
      else w\<lparr>fs := (fs w)(dest \<mapsto> \<lparr>content = [], mtime = None\<rparr>)\<rparr>)"

definition started :: "env \<Rightarrow> world \<Rightarrow> string \<Rightarrow> bool \<Rightarrow> world" where
  "started en w dest cont =
     (opened w dest cont)\<lparr>ticks := Suc (ticks w), trace := trace w @ [start_event en w dest cont]\<rparr>"

definition requested :: "env \<Rightarrow> world \<Rightarrow> string \<Rightarrow> string \<Rightarrow> bool \<Rightarrow> world" where
  "requested en w url dest cont =
     (started en w dest cont)\<lparr>requests := requests w @ [(url, call_headers (call_offset w dest cont) cont)]\<rparr>"

lemma opened_simps:
  "ticks (opened w dest cont) = ticks w"
  "trace (opened w dest cont) = trace w"
  "requests (opened w dest cont) = requests w"
  by (simp_all add: opened_def)

lemma request_download_unfold:
  "request_download en url dest progress cont w =
     (case progress (start_event en w dest cont) of
        Inl x \<Rightarrow> (Inl x, started en w dest cont)
      | Inr u \<Rightarrow>
          after_response en dest progress (clock en (ticks w)) (call_offset w dest cont)
            (cont \<and> call_offset w dest cont \<noteq> 0)
            (http en url (call_headers (call_offset w dest cont) cont))
            (requested en w url dest cont))"
  unfolding request_download_def after_response_def Let_def seq_fp_open opened_def [symmetric]
    seq_time_now seq_emit seq_request opened_simps
  by (simp add: start_event_def started_def requested_def call_headers_def opened_simps
      split del: if_split cong: sum.case_cong if_cong)

lemma header_date_trace:
  "trace (snd ((case request_header_get hs h of
                  None \<Rightarrow> ret None
                | Some m \<Rightarrow> if m = [] then ret None
                            else seq (parse_http_header_date en m) (\<lambda>t. ret (Some t))) w)) = trace w"
  by (simp add: ret_def seq_def parse_http_header_date_def raise_def split: option.splits)

text \<open>What \<open>after_response\<close> adds to the trace.\<close>

lemma after_response_trace:
  fixes en dest progress start offset continued res
  defines "A \<equiv> after_response en dest progress start offset continued res"
  shows "\<exists>evs. trace (snd (A w)) = trace w @ evs
     \<and> (\<forall>e \<in> set evs. ev_offset e = offset \<and> ev_status e \<noteq> DL_PROGRESS_START)
     \<and> sorted (map ev_current (filter is_rw evs))
     \<and> (\<forall>e \<in> set (filter is_rw evs). offset \<le> ev_current e)
     \<and> (\<forall>v. fst (A w) = Inr v \<longrightarrow>
           evs \<noteq> [] \<and> ev_status (last evs) = DL_PROGRESS_DONE \<and> ev_added (last evs) = 0 \<and>
           paired (butlast evs))"
proof (cases "continued \<and> getcode res = 416")
  case True
  define d where "d = \<lparr>ev_status = DL_PROGRESS_DONE, ev_start = start, ev_now = clock en (ticks w),
    ev_offset = offset, ev_added = 0, ev_current = offset, ev_total = Some (int offset)\<rparr>"
  have "trace (snd (A w)) = trace w @ [d]"
    using True by (simp add: A_def after_response_def seq_simps d_def ret_def split: sum.splits)
  then show ?thesis
    by (intro exI [of _ "[d]"]) (simp add: d_def is_rw_def)
next
  case False
  show ?thesis
  proof (cases "getcode res = (if continued then 206 else 200)")
    case bad: False
    from False have n416: "(continued \<and> getcode res = 416) = False"
      by simp
    have "trace (snd (A w)) = trace w @ []"
      "fst (A w) = Inl (InvalidStatusCode (getcode res) (if continued then 206 else 200))"
      using bad by (simp_all add: A_def after_response_def n416 assert_status_code_def seq_raise)
    then show ?thesis
      by (intro exI [of _ "[]"]) simp
  next
    case good: True
    define tot where "tot = (case request_header_get_int (info res) ''content-length'' of
                               None \<Rightarrow> None | Some l \<Rightarrow> Some (int offset + l))"
    define H where "H = (case request_header_get (info res) ''last-modified'' of
              None \<Rightarrow> ret None
            | Some m \<Rightarrow> if m = [] then ret None
                        else seq (parse_http_header_date en m) (\<lambda>t. ret (Some t)))"
    define T where "T = (\<lambda>modified.
       seq (read_loop en progress dest start offset tot (chunks res) offset) (\<lambda>sz.
       seq (time_now en) (\<lambda>t.
       seq (emit progress \<lparr>ev_status = DL_PROGRESS_DONE, ev_start = start, ev_now = t,
              ev_offset = offset, ev_added = 0, ev_current = sz, ev_total = tot\<rparr>) (\<lambda>_.
       ret (Some \<lparr>dl_size = tot, dl_modified = modified\<rparr>)))))"
    from False have n416: "(continued \<and> getcode res = 416) = False"
      by simp
    have A: "A w = seq H T w"
      using good
      by (simp add: A_def after_response_def n416 assert_status_code_def seq_ret Let_def H_def T_def tot_def)
    have Htr: "trace (snd (H w)) = trace w"
      unfolding H_def by (rule header_date_trace)
    show ?thesis
    proof (cases "fst (H w)")
      case (Inl x)
      then have "A w = (Inl x, snd (H w))"
        by (cases "H w") (simp add: A seq_def)
      with Htr show ?thesis
        by (intro exI [of _ "[]"]) simp
    next
      case (Inr modified)
      then have AT: "A w = T modified (snd (H w))"
        by (cases "H w") (simp add: A seq_def)
      from transfer_trace [of en progress dest start offset tot "chunks res" modified "snd (H w)"]
      obtain evs where
        "trace (snd (T modified (snd (H w)))) = trace (snd (H w)) @ evs"
        "\<forall>e \<in> set evs. ev_offset e = offset \<and> ev_total e = tot \<and> ev_status e \<noteq> DL_PROGRESS_START"
        "body_ok offset tot offset (filter is_rw evs)"
        "\<forall>v. fst (T modified (snd (H w))) = Inr v \<longrightarrow>
           v = Some \<lparr>dl_size = tot, dl_modified = modified\<rparr> \<and> evs \<noteq> [] \<and>
           ev_status (last evs) = DL_PROGRESS_DONE \<and> ev_added (last evs) = 0 \<and>
           paired (butlast evs)"
        unfolding T_def by blast
      then show ?thesis
        unfolding AT Htr
        by (intro exI [of _ evs]) (auto simp: body_ok_def)
    qed
  qed
qed

text \<open>The events of a call of \<open>request_download\<close>.\<close>

lemma request_download_trace:
  fixes en url dest progress cont w
  defines "R \<equiv> request_download en url dest progress cont w"
  shows "\<exists>evs. trace (snd R) = trace w @ start_event en w dest cont # evs
     \<and> (\<forall>e \<in> set evs. ev_offset e = call_offset w dest cont \<and> ev_status e \<noteq> DL_PROGRESS_START)
     \<and> sorted (map ev_current (filter is_rw evs))
     \<and> (\<forall>e \<in> set (filter is_rw evs). call_offset w dest cont \<le> ev_current e)
     \<and> (\<forall>v. fst R = Inr v \<longrightarrow>
           evs \<noteq> [] \<and> ev_status (last evs) = DL_PROGRESS_DONE \<and> ev_added (last evs) = 0 \<and>
           paired (butlast evs))"
proof (cases "progress (start_event en w dest cont)")
  case (Inl x)
  then have "R = (Inl x, started en w dest cont)"
    by (simp add: R_def request_download_unfold)
  then show ?thesis
    by (intro exI [of _ "[]"]) (simp add: started_def)
next
  case (Inr u)
  define W where "W = requested en w url dest cont"
  have W: "trace W = trace w @ [start_event en w dest cont]"
    by (simp add: W_def requested_def started_def)
  from Inr have R: "R = after_response en dest progress (clock en (ticks w)) (call_offset w dest cont)
            (cont \<and> call_offset w dest cont \<noteq> 0)
            (http en url (call_headers (call_offset w dest cont) cont)) W"
    by (simp add: R_def request_download_unfold W_def)
  show ?thesis
    using after_response_trace [of en dest progress "clock en (ticks w)" "call_offset w dest cont"
        "cont \<and> call_offset w dest cont \<noteq> 0" "http en url (call_headers (call_offset w dest cont) cont)" W]
    unfolding R [symmetric] W by auto
qed

lemma new_events_append: "trace w' = trace w @ evs \<Longrightarrow> new_events w w' = evs"
  by (simp add: new_events_def)

text \<open>
  An example environment: the page at \<open>ex_page_url\<close> carries \<open>ex_script\<close>, every other
  URL is answered with the response \<open>r\<close>; the clock counts its readings.
\<close>

definition ex_page_url :: string where
  "ex_page_url = ''http://host/v/uN1qu3/file.html''"

definition ex_file_url :: string where
  "ex_file_url = ''http://host/d/uN1qu3/74091/file.ext''"

definition ex_page_text :: string where
  "ex_page_text = ''<html><body><script type='' @ dq @ ''text/javascript'' @ dq @ ''>'' @ ex_script @
     ''</script></body></html>''"

definition ex_page :: response where
  "ex_page = \<lparr>getcode = 200, info = [(''Content-Type'', ''text/html'')], chunks = [ex_page_text]\<rparr>"

definition ex_env :: "response \<Rightarrow> env" where
  "ex_env r =
     \<lparr>http = (\<lambda>url hs. if url = ex_page_url then ex_page else r),
      clock = (\<lambda>n. int n),
      parsedate = (\<lambda>s. if s = ''Tue, 01 Jan 2019 00:00:00 GMT'' then Some 1546300800 else None),
      tokenize = (\<lambda>s. if s = ex_page_text then ex_html else []),
      urljoin = (\<lambda>base h. ''http://host'' @ h)\<rparr>"

definition ex_file :: response where
  "ex_file =
     \<lparr>getcode = 200,
      info = [(''Content-Length'', ''6''), (''Last-Modified'', ''Tue, 01 Jan 2019 00:00:00 GMT'')],
      chunks = [''abcd'', ''ef'']\<rparr>"

definition ex_world :: "(string \<rightharpoonup> file_node) \<Rightarrow> world" where
  "ex_world files = \<lparr>fs = files, requests = [], trace = [], ticks = 0\<rparr>"

text \<open>A sink that accepts every event.\<close>

definition accept :: "event \<Rightarrow> error + unit" where
  "accept e = Inr ()"

text \<open>A sink that raises on every event.\<close>

definition reject :: "event \<Rightarrow> error + unit" where
  "reject e = Inl TypeError"

definition ev :: "status \<Rightarrow> int \<Rightarrow> int \<Rightarrow> nat \<Rightarrow> nat \<Rightarrow> nat \<Rightarrow> int option \<Rightarrow> event" where
  "ev s t0 t offset added current tot =
     \<lparr>ev_status = s, ev_start = t0, ev_now = t, ev_offset = offset, ev_added = added,
      ev_current = current, ev_total = tot\<rparr>"

lemma ex_env_simps:
  "http (ex_env r) url hs = (if url = ex_page_url then ex_page else r)"
  "clock (ex_env r) n = int n"
  "parsedate (ex_env r) s = (if s = ''Tue, 01 Jan 2019 00:00:00 GMT'' then Some 1546300800 else None)"
  "tokenize (ex_env r) s = (if s = ex_page_text then ex_html else [])"
  "urljoin (ex_env r) base h = ''http://host'' @ h"
  by (simp_all add: ex_env_def)

lemma ex_urls: "ex_file_url \<noteq> ex_page_url"
  by (simp add: ex_file_url_def ex_page_url_def)

lemma ex_world_simps:
  "fs (ex_world files) = files"
  "requests (ex_world files) = []"
  "trace (ex_world files) = []"
  "ticks (ex_world files) = 0"
  by (simp_all add: ex_world_def)

lemma lower_header_names:
  "lower ''Content-Length'' = ''content-length''"
  "lower ''content-length'' = ''content-length''"
  "lower ''Last-Modified'' = ''last-modified''"
  "lower ''last-modified'' = ''last-modified''"
  "lower ''Content-Type'' = ''content-type''"
  by code_simp+

lemma py_int_examples:
  "py_int ''6'' = Some 6"
  "py_int ''4'' = Some 4"
  "py_int ''1000'' = Some 1000"
  "py_int ''six'' = None"
  by code_simp+

text \<open>The rules that run \<open>request_download\<close> on a given environment and state.\<close>

lemmas run_simps = request_download_unfold after_response_def seq_assoc seq_Pair seq_simps
  start_event_def started_def requested_def opened_def call_offset_def call_headers_def
  ex_env_simps ex_urls ex_world_simps accept_def reject_def assert_status_code_def
  request_header_get_int_def request_header_get_def header_lookup_def
  parse_http_header_date_def ret_def raise_def new_events_def ev_def lower_header_names
  py_int_examples Let_def



text \<open>
  C6. In a call of \<open>request_download\<close> every delivered event carries the offset that
  was determined at the start of the call (0 without \<open>cont\<close>, the size of the file on
  disk with it), and over the Read and Wrote events \<open>current\<close> never decreases and never
  is below that offset.
\<close>

theorem request_download_offset_fixed:
  fixes en url dest progress cont w
  defines "evs \<equiv> new_events w (snd (request_download en url dest progress cont w))"
  shows "(\<forall>e \<in> set evs. ev_offset e = call_offset w dest cont)
     \<and> sorted (map ev_current (filter is_rw evs))
     \<and> (\<forall>e \<in> set (filter is_rw evs). call_offset w dest cont \<le> ev_current e)
     \<and> (\<not> cont \<longrightarrow> call_offset w dest cont = 0)
     \<and> (\<forall>f. cont \<and> fs w dest = Some f \<longrightarrow> call_offset w dest cont = length (content f))"
proof -
  obtain rest where
    tr: "trace (snd (request_download en url dest progress cont w))
           = trace w @ start_event en w dest cont # rest"
    and off: "\<forall>e \<in> set rest. ev_offset e = call_offset w dest cont \<and> ev_status e \<noteq> DL_PROGRESS_START"
    and srt: "sorted (map ev_current (filter is_rw rest))"
    and low: "\<forall>e \<in> set (filter is_rw rest). call_offset w dest cont \<le> ev_current e"
    using request_download_trace [of en url dest progress cont w] by blast
  have evs: "evs = start_event en w dest cont # rest"
    unfolding evs_def by (rule new_events_append) (simp add: tr)
  have rw: "filter is_rw evs = filter is_rw rest"
    by (simp add: evs is_rw_def start_event_def)
  show ?thesis
    using off srt low unfolding rw
    by (auto simp: evs start_event_def call_offset_def)
qed

text \<open>
  C7. A call of \<open>request_download\<close> that returns has delivered a Start event first, a
  Done event with no added bytes last, and between them Read events each directly
  followed by a Wrote event with the same byte counts. Start is delivered before the
  request is issued: when the sink raises on it, the call ends there and no request has
  been made.
\<close>

theorem request_download_ordered:
  fixes en url dest progress cont w
  defines "R \<equiv> request_download en url dest progress cont w"
  shows "(\<forall>v. fst R = Inr v \<longrightarrow> ordered (new_events w (snd R)))
     \<and> (\<forall>x. progress (start_event en w dest cont) = Inl x \<longrightarrow>
          fst R = Inl x \<and> new_events w (snd R) = [start_event en w dest cont] \<and>
          requests (snd R) = requests w)"
proof -
  obtain rest where
    tr: "trace (snd R) = trace w @ start_event en w dest cont # rest"
    and fin: "\<forall>v. fst R = Inr v \<longrightarrow>
           rest \<noteq> [] \<and> ev_status (last rest) = DL_PROGRESS_DONE \<and> ev_added (last rest) = 0 \<and>
           paired (butlast rest)"
    using request_download_trace [of en url dest progress cont w] unfolding R_def by blast
  have evs: "new_events w (snd R) = start_event en w dest cont # rest"
    by (rule new_events_append) (simp add: tr)
  have "\<forall>v. fst R = Inr v \<longrightarrow> ordered (new_events w (snd R))"
    using fin by (simp add: evs ordered_def start_event_def)
  moreover have "\<forall>x. progress (start_event en w dest cont) = Inl x \<longrightarrow>
          fst R = Inl x \<and> new_events w (snd R) = [start_event en w dest cont] \<and>
          requests (snd R) = requests w"
    by (simp add: R_def request_download_unfold started_def opened_simps new_events_def)
  ultimately show ?thesis
    by blast
qed


text \<open>A partly downloaded file, and the responses to a request for the rest of it.\<close>

definition ex_partial :: "string \<rightharpoonup> file_node" where
  "ex_partial = [''out'' \<mapsto> \<lparr>content = ''ab'', mtime = None\<rparr>]"

definition ex_rest :: response where
  "ex_rest = \<lparr>getcode = 206, info = [(''Content-Length'', ''4'')], chunks = [''cd'', ''ef'']\<rparr>"


lemma ex_fresh_events:
  "new_events (ex_world Map.empty)
     (snd (request_download (ex_env ex_file) ex_file_url ''out'' accept False (ex_world Map.empty)))
   = [ev DL_PROGRESS_START 0 0 0 0 0 None,
      ev DL_PROGRESS_READ 0 1 0 4 4 (Some 6), ev DL_PROGRESS_WROTE 0 2 0 4 4 (Some 6),
      ev DL_PROGRESS_READ 0 3 0 2 6 (Some 6), ev DL_PROGRESS_WROTE 0 4 0 2 6 (Some 6),
      ev DL_PROGRESS_DONE 0 5 0 0 6 (Some 6)]"
  by (simp add: run_simps ex_file_def)

lemma ex_fresh_result:
  "fst (request_download (ex_env ex_file) ex_file_url ''out'' accept False (ex_world Map.empty))
   = Inr (Some \<lparr>dl_size = Some 6, dl_modified = Some 1546300800\<rparr>)"
  by (simp add: run_simps ex_file_def)

lemma ex_resumed_events:
  "new_events (ex_world ex_partial)
     (snd (request_download (ex_env ex_rest) ex_file_url ''out'' accept True (ex_world ex_partial)))
   = [ev DL_PROGRESS_START 0 0 2 0 2 None,
      ev DL_PROGRESS_READ 0 1 2 2 4 (Some 6), ev DL_PROGRESS_WROTE 0 2 2 2 4 (Some 6),
      ev DL_PROGRESS_READ 0 3 2 2 6 (Some 6), ev DL_PROGRESS_WROTE 0 4 2 2 6 (Some 6),
      ev DL_PROGRESS_DONE 0 5 2 0 6 (Some 6)]"
  by (simp add: run_simps ex_rest_def ex_partial_def)

theorem request_download_offset_fixed_witness:
  "call_offset (ex_world ex_partial) ''out'' True = 2
   \<and> map ev_offset (new_events (ex_world ex_partial)
         (snd (request_download (ex_env ex_rest) ex_file_url ''out'' accept True (ex_world ex_partial))))
       = [2, 2, 2, 2, 2, 2]
   \<and> map ev_current (filter is_rw (new_events (ex_world ex_partial)
         (snd (request_download (ex_env ex_rest) ex_file_url ''out'' accept True (ex_world ex_partial)))))
       = [4, 4, 6, 6]
   \<and> sorted (map ev_current (filter is_rw (new_events (ex_world ex_partial)
         (snd (request_download (ex_env ex_rest) ex_file_url ''out'' accept True (ex_world ex_partial))))))"
proof -
  have off: "call_offset (ex_world ex_partial) ''out'' True = 2"
    by (simp add: call_offset_def ex_world_simps ex_partial_def)
  have offs: "map ev_offset (new_events (ex_world ex_partial)
         (snd (request_download (ex_env ex_rest) ex_file_url ''out'' accept True (ex_world ex_partial))))
       = [2, 2, 2, 2, 2, 2]"
    by (simp add: ex_resumed_events ev_def)
  have cur: "map ev_current (filter is_rw (new_events (ex_world ex_partial)
         (snd (request_download (ex_env ex_rest) ex_file_url ''out'' accept True (ex_world ex_partial)))))
       = [4, 4, 6, 6]"
    by (simp add: ex_resumed_events ev_def is_rw_def)
  from request_download_offset_fixed [where w = "ex_world ex_partial" and dest = "''out''"
      and cont = True and en = "ex_env ex_rest" and url = ex_file_url and progress = accept]
  have "sorted (map ev_current (filter is_rw (new_events (ex_world ex_partial)
         (snd (request_download (ex_env ex_rest) ex_file_url ''out'' accept True (ex_world ex_partial))))))"
    by blast
  with off offs cur show ?thesis
    by blast
qed

theorem request_download_ordered_witness:
  "ordered (new_events (ex_world Map.empty)
     (snd (request_download (ex_env ex_file) ex_file_url ''out'' accept False (ex_world Map.empty))))
   \<and> requests (snd (request_download (ex_env ex_file) ex_file_url ''out'' reject False (ex_world Map.empty))) = []"
proof -
  have "reject (start_event (ex_env ex_file) (ex_world Map.empty) ''out'' False) = Inl TypeError"
    by (simp add: reject_def)
  with request_download_ordered [where w = "ex_world Map.empty" and dest = "''out''"
      and cont = False and en = "ex_env ex_file" and url = ex_file_url and progress = reject]
  have "requests (snd (request_download (ex_env ex_file) ex_file_url ''out'' reject False (ex_world Map.empty))) = []"
    by (simp add: ex_world_simps)
  moreover from request_download_ordered [where w = "ex_world Map.empty" and dest = "''out''"
      and cont = False and en = "ex_env ex_file" and url = ex_file_url and progress = accept]
    ex_fresh_result
  have "ordered (new_events (ex_world Map.empty)
     (snd (request_download (ex_env ex_file) ex_file_url ''out'' accept False (ex_world Map.empty))))"
    by simp
  ultimately show ?thesis
    by simp
qed



end
